theory Spec2Isabelle
  imports Main "HOL-Library.Word"
begin

section \<open>The ATM controller of project.cpp and its mock collaborators\<close>

text \<open>
  The C++ type \<^verbatim>\<open>int\<close> is a 32-bit two's complement integer: a \<open>32 word\<close>, compared
  with the signed orderings \<open>\<le>s\<close> and \<open><s\<close>. Addition and subtraction wrap around
  (the C++ standard leaves signed overflow undefined; none of the results below
  depends on an overflowing operation).

  Every exception of the program is a value of \<open>exn\<close>: \<^verbatim>\<open>std::runtime_error\<close> with its
  message, and the \<^verbatim>\<open>std::out_of_range\<close> that \<^verbatim>\<open>std::map::at\<close> throws on a missing key.
  A method returns its result (\<open>Inl\<close> the exception thrown, \<open>Inr\<close> the value returned)
  together with the state of the objects when it returns or throws.
\<close>

type_synonym int32 = "32 word"

datatype exn = runtime_error string | out_of_range

text \<open>The names section 7 of the specification gives to the controller's exceptions.\<close>

abbreviation NoCardInserted :: exn where
  "NoCardInserted \<equiv> runtime_error ''No card inserted''"

abbreviation NotAuthenticated :: exn where
  "NotAuthenticated \<equiv> runtime_error ''Not authenticated''"

abbreviation NoAccountSelected :: exn where
  "NoAccountSelected \<equiv> runtime_error ''No account selected''"

abbreviation InvalidAmount_deposit :: exn where
  "InvalidAmount_deposit \<equiv> runtime_error ''Invalid deposit amount''"

abbreviation InvalidAmount_withdraw :: exn where
  "InvalidAmount_withdraw \<equiv> runtime_error ''Invalid withdraw amount''"

abbreviation InsufficientFunds :: exn where
  "InsufficientFunds \<equiv> runtime_error ''Insufficient funds''"

abbreviation InsufficientCash :: exn where
  "InsufficientCash \<equiv> runtime_error ''ATM has insufficient cash''"

subsection \<open>MockBankGateway\<close>

record MockBankGateway =
  pins :: "string \<rightharpoonup> string"
  balances :: "string \<rightharpoonup> int32"

definition MockBankGateway_new :: MockBankGateway where
  "MockBankGateway_new =
     \<lparr>pins = [''CARD-1234'' \<mapsto> ''4321''], balances = [''ACC-111'' \<mapsto> 100]\<rparr>"

definition validatePin :: "MockBankGateway \<Rightarrow> string \<Rightarrow> string \<Rightarrow> bool" where
  "validatePin b cardNo pin =
     (case pins b cardNo of None \<Rightarrow> False | Some p \<Rightarrow> p = pin)"

text \<open>\<^verbatim>\<open>balances.at(accountId)\<close>: throws \<^verbatim>\<open>std::out_of_range\<close> on an unknown account.\<close>

definition bank_getBalance :: "MockBankGateway \<Rightarrow> string \<Rightarrow> exn + int32" where
  "bank_getBalance b accountId =
     (case balances b accountId of None \<Rightarrow> Inl out_of_range | Some v \<Rightarrow> Inr v)"

text \<open>\<^verbatim>\<open>balances[accountId]\<close>: inserts the value 0 for an unknown account first.\<close>

definition subscript :: "(string \<rightharpoonup> int32) \<Rightarrow> string \<Rightarrow> int32" where
  "subscript m k = (case m k of None \<Rightarrow> 0 | Some v \<Rightarrow> v)"

definition debit :: "MockBankGateway \<Rightarrow> string \<Rightarrow> int32 \<Rightarrow> MockBankGateway" where
  "debit b accountId amount =
     b\<lparr>balances := (balances b)(accountId \<mapsto> subscript (balances b) accountId - amount)\<rparr>"

definition credit :: "MockBankGateway \<Rightarrow> string \<Rightarrow> int32 \<Rightarrow> MockBankGateway" where
  "credit b accountId amount =
     b\<lparr>balances := (balances b)(accountId \<mapsto> subscript (balances b) accountId + amount)\<rparr>"

subsection \<open>MockCashDispenser\<close>

record MockCashDispenser =
  cashOnHand :: int32

definition MockCashDispenser_new :: MockCashDispenser where
  "MockCashDispenser_new = \<lparr>cashOnHand = 200\<rparr>"

definition hasCash :: "MockCashDispenser \<Rightarrow> int32 \<Rightarrow> bool" where
  "hasCash d amount = (amount \<le>s cashOnHand d)"

definition dispenseCash ::
  "MockCashDispenser \<Rightarrow> int32 \<Rightarrow> (exn + unit) \<times> MockCashDispenser" where
  "dispenseCash d amount =
     (if cashOnHand d <s amount then (Inl (runtime_error ''Not enough ATM cash''), d)
      else (Inr (), d\<lparr>cashOnHand := cashOnHand d - amount\<rparr>))"

subsection \<open>MockCardReader\<close>

text \<open>The mock reader has no data member; its \<^verbatim>\<open>ejectCard\<close> has an empty body.\<close>

datatype MockCardReader = MockCardReader

definition readCard :: "MockCardReader \<Rightarrow> string" where
  "readCard r = ''CARD-1234''"

definition reader_ejectCard :: "MockCardReader \<Rightarrow> MockCardReader" where
  "reader_ejectCard r = r"

subsection \<open>ATMController\<close>

text \<open>
  The controller holds references to its three collaborators and three fields of its
  own. The record has the state of the referenced objects in the place of the
  references. The field \<open>calls\<close> is not in the program: it records, in program order,
  every call the controller has made on a collaborator, so that the order of the calls
  can be stated.
\<close>

datatype event =
    ReadCard
  | ReaderEjectCard
  | ValidatePin string string
  | BankGetBalance string
  | Debit string int32
  | Credit string int32
  | HasCash int32
  | DispenseCash int32

record ATMController =
  bank :: MockBankGateway
  dispenser :: MockCashDispenser
  reader :: MockCardReader
  cardNumber :: string
  authenticated :: bool
  selectedAccount :: string
  calls :: "event list"

definition ATMController_new ::
  "MockBankGateway \<Rightarrow> MockCashDispenser \<Rightarrow> MockCardReader \<Rightarrow> ATMController" where
  "ATMController_new b d r =
     \<lparr>bank = b, dispenser = d, reader = r,
      cardNumber = [], authenticated = False, selectedAccount = [], calls = []\<rparr>"

definition emit :: "event \<Rightarrow> ATMController \<Rightarrow> ATMController" where
  "emit e a = a\<lparr>calls := calls a @ [e]\<rparr>"

definition insertCard :: "ATMController \<Rightarrow> (exn + unit) \<times> ATMController" where
  "insertCard a =
     (let a1 = emit ReadCard a
      in (Inr (), a1\<lparr>cardNumber := readCard (reader a1),
                      authenticated := False,
                      selectedAccount := []\<rparr>))"

definition enterPin :: "ATMController \<Rightarrow> string \<Rightarrow> (exn + bool) \<times> ATMController" where
  "enterPin a pin =
     (if cardNumber a = [] then (Inl NoCardInserted, a)
      else let a1 = emit (ValidatePin (cardNumber a) pin) a;
               a2 = a1\<lparr>authenticated := validatePin (bank a1) (cardNumber a1) pin\<rparr>
           in (Inr (authenticated a2), a2))"

definition selectAccount :: "ATMController \<Rightarrow> string \<Rightarrow> (exn + unit) \<times> ATMController" where
  "selectAccount a acctId =
     (if \<not> authenticated a then (Inl NotAuthenticated, a)
      else (Inr (), a\<lparr>selectedAccount := acctId\<rparr>))"

definition getBalance :: "ATMController \<Rightarrow> (exn + int32) \<times> ATMController" where
  "getBalance a =
     (if selectedAccount a = [] then (Inl NoAccountSelected, a)
      else let a1 = emit (BankGetBalance (selectedAccount a)) a
           in (bank_getBalance (bank a1) (selectedAccount a1), a1))"

definition deposit :: "ATMController \<Rightarrow> int32 \<Rightarrow> (exn + unit) \<times> ATMController" where
  "deposit a amount =
     (if selectedAccount a = [] then (Inl NoAccountSelected, a)
      else if amount \<le>s 0 then (Inl InvalidAmount_deposit, a)
      else let a1 = emit (Credit (selectedAccount a) amount) a
           in (Inr (), a1\<lparr>bank := credit (bank a1) (selectedAccount a1) amount\<rparr>))"

definition withdraw :: "ATMController \<Rightarrow> int32 \<Rightarrow> (exn + unit) \<times> ATMController" where
  "withdraw a amount =
     (if selectedAccount a = [] then (Inl NoAccountSelected, a)
      else if amount \<le>s 0 then (Inl InvalidAmount_withdraw, a)
      else
        let a1 = emit (BankGetBalance (selectedAccount a)) a in
        case bank_getBalance (bank a1) (selectedAccount a1) of
          Inl e \<Rightarrow> (Inl e, a1)
        | Inr bal \<Rightarrow>
            if bal <s amount then (Inl InsufficientFunds, a1)
            else
              let a2 = emit (HasCash amount) a1 in
              if \<not> hasCash (dispenser a2) amount then (Inl InsufficientCash, a2)
              else
                let a3 = (emit (Debit (selectedAccount a2) amount) a2)
                           \<lparr>bank := debit (bank a2) (selectedAccount a2) amount\<rparr>;
                    a4 = emit (DispenseCash amount) a3
                in (case dispenseCash (dispenser a4) amount of
                      (Inl e, d) \<Rightarrow> (Inl e, a4\<lparr>dispenser := d\<rparr>)
                    | (Inr u, d) \<Rightarrow> (Inr (), a4\<lparr>dispenser := d\<rparr>)))"

definition ejectCard :: "ATMController \<Rightarrow> (exn + unit) \<times> ATMController" where
  "ejectCard a =
     (let a1 = (emit ReaderEjectCard a)\<lparr>reader := reader_ejectCard (reader a)\<rparr>
      in (Inr (), a1\<lparr>cardNumber := [], authenticated := False, selectedAccount := []\<rparr>))"

text \<open>The session: the three fields the controller owns.\<close>

definition session :: "ATMController \<Rightarrow> string \<times> bool \<times> string" where
  "session a = (cardNumber a, authenticated a, selectedAccount a)"

subsection \<open>Sequences of calls\<close>

text \<open>
  A driver calls the public methods one after the other and catches what they throw, as
  \<^verbatim>\<open>main\<close> does around \<^verbatim>\<open>withdraw(200)\<close>. \<open>run\<close> gives the result of every call, in
  order, and the state after the last one.
\<close>

datatype op =
    InsertCard
  | EnterPin string
  | SelectAccount string
  | GetBalance
  | Deposit int32
  | Withdraw int32
  | EjectCard

datatype val = VVoid | VBool bool | VInt int32

definition ret :: "('a \<Rightarrow> val) \<Rightarrow> (exn + 'a) \<times> ATMController \<Rightarrow> (exn + val) \<times> ATMController" where
  "ret f p = (map_sum id f (fst p), snd p)"

fun exec :: "op \<Rightarrow> ATMController \<Rightarrow> (exn + val) \<times> ATMController" where
  "exec InsertCard a = ret (\<lambda>_. VVoid) (insertCard a)"
| "exec (EnterPin pin) a = ret VBool (enterPin a pin)"
| "exec (SelectAccount acctId) a = ret (\<lambda>_. VVoid) (selectAccount a acctId)"
| "exec GetBalance a = ret VInt (getBalance a)"
| "exec (Deposit amount) a = ret (\<lambda>_. VVoid) (deposit a amount)"
| "exec (Withdraw amount) a = ret (\<lambda>_. VVoid) (withdraw a amount)"
| "exec EjectCard a = ret (\<lambda>_. VVoid) (ejectCard a)"

fun run :: "op list \<Rightarrow> ATMController \<Rightarrow> (exn + val) list \<times> ATMController" where
  "run [] a = ([], a)"
| "run (c # cs) a =
     (let (r, a1) = exec c a; (rs, a2) = run cs a1 in (r # rs, a2))"

text \<open>
  A call selects an account when it is a \<open>selectAccount\<close> with a non-empty identifier
  that returns normally.
\<close>

fun selects :: "op \<Rightarrow> exn + val \<Rightarrow> bool" where
  "selects (SelectAccount acctId) (Inr v) = (acctId \<noteq> [])"
| "selects c r = False"

text \<open>The objects \<^verbatim>\<open>main\<close> constructs.\<close>

definition atm0 :: ATMController where
  "atm0 = ATMController_new MockBankGateway_new MockCashDispenser_new MockCardReader"

text \<open>
  The state of the mock objects while the card of \<^verbatim>\<open>main\<close> is in the reader: the
  balance of ACC-111, the dispenser's stock, the authentication flag, the selected
  account and the calls made so far.
\<close>

definition mock_state :: "int32 \<Rightarrow> int32 \<Rightarrow> bool \<Rightarrow> string \<Rightarrow> event list \<Rightarrow> ATMController" where
  "mock_state bal cash au acct cs =
     \<lparr>bank = \<lparr>pins = [''CARD-1234'' \<mapsto> ''4321''], balances = [''ACC-111'' \<mapsto> bal]\<rparr>,
      dispenser = \<lparr>cashOnHand = cash\<rparr>, reader = MockCardReader,
      cardNumber = ''CARD-1234'', authenticated = au, selectedAccount = acct, calls = cs\<rparr>"

section \<open>Unfolding the methods\<close>

lemmas mock_defs =
  MockBankGateway_new_def MockCashDispenser_new_def validatePin_def bank_getBalance_def
  subscript_def debit_def credit_def hasCash_def dispenseCash_def readCard_def
  reader_ejectCard_def

lemmas atm_defs =
  ATMController_new_def insertCard_def enterPin_def selectAccount_def getBalance_def
  deposit_def withdraw_def ejectCard_def emit_def ret_def session_def

lemmas signed_cmp = word_sle_eq word_sless_alt

subsection \<open>Single calls on the objects of main\<close>

lemma step_insert:
  "exec InsertCard atm0 = (Inr VVoid, mock_state 100 200 False [] [ReadCard])"
  by (simp add: atm0_def atm_defs mock_defs mock_state_def)

lemma step_pin:
  "exec (EnterPin pin) (mock_state bal cash au acct cs) =
     (Inr (VBool (pin = ''4321'')),
      mock_state bal cash (pin = ''4321'') acct (cs @ [ValidatePin ''CARD-1234'' pin]))"
  by (simp add: atm_defs mock_defs mock_state_def eq_commute)

lemma step_select:
  "exec (SelectAccount acct') (mock_state bal cash True acct cs) =
     (Inr VVoid, mock_state bal cash True acct' cs)"
  by (simp add: atm_defs mock_defs mock_state_def)

lemma step_balance:
  "exec GetBalance (mock_state bal cash au ''ACC-111'' cs) =
     (Inr (VInt bal), mock_state bal cash au ''ACC-111'' (cs @ [BankGetBalance ''ACC-111'']))"
  by (simp add: atm_defs mock_defs mock_state_def)

lemma step_deposit:
  "0 <s amount \<Longrightarrow>
   exec (Deposit amount) (mock_state bal cash au ''ACC-111'' cs) =
     (Inr VVoid,
      mock_state (bal + amount) cash au ''ACC-111'' (cs @ [Credit ''ACC-111'' amount]))"
  by (simp add: atm_defs mock_defs mock_state_def signed_cmp)

lemma step_withdraw:
  "0 <s amount \<Longrightarrow> amount \<le>s bal \<Longrightarrow> amount \<le>s cash \<Longrightarrow>
   exec (Withdraw amount) (mock_state bal cash au ''ACC-111'' cs) =
     (Inr VVoid,
      mock_state (bal - amount) (cash - amount) au ''ACC-111''
        (cs @ [BankGetBalance ''ACC-111'', HasCash amount,
               Debit ''ACC-111'' amount, DispenseCash amount]))"
  by (simp add: atm_defs mock_defs mock_state_def signed_cmp)

lemma step_withdraw_funds:
  "0 <s amount \<Longrightarrow> bal <s amount \<Longrightarrow>
   exec (Withdraw amount) (mock_state bal cash au ''ACC-111'' cs) =
     (Inl InsufficientFunds,
      mock_state bal cash au ''ACC-111'' (cs @ [BankGetBalance ''ACC-111'']))"
  by (simp add: atm_defs mock_defs mock_state_def signed_cmp)

lemma step_select_unauthenticated:
  "exec (SelectAccount acct') (mock_state bal cash False acct cs) =
     (Inl NotAuthenticated, mock_state bal cash False acct cs)"
  by (simp add: atm_defs mock_state_def)

subsection \<open>No account stays selected unless a call selects one\<close>

lemma exec_keeps_no_account:
  "selectedAccount a = [] \<Longrightarrow> \<not> selects c (fst (exec c a)) \<Longrightarrow>
   selectedAccount (snd (exec c a)) = []"
  by (cases c) (auto simp: atm_defs Let_def split: if_splits)

lemma run_keeps_no_account:
  "selectedAccount a = [] \<Longrightarrow>
   list_all (\<lambda>(c, r). \<not> selects c r) (zip cs (fst (run cs a))) \<Longrightarrow>
   selectedAccount (snd (run cs a)) = []"
proof (induction cs arbitrary: a)
  case Nil
  then show ?case by simp
next
  case (Cons c cs)
  obtain r a1 where e: "exec c a = (r, a1)"
    by (cases "exec c a")
  obtain rs a2 where r: "run cs a1 = (rs, a2)"
    by (cases "run cs a1")
  from Cons.prems e r have here: "\<not> selects c r"
    and rest: "list_all (\<lambda>(c, r). \<not> selects c r) (zip cs (fst (run cs a1)))"
    by (simp_all del: exec.simps)
  from exec_keeps_no_account [of a c] Cons.prems(1) e here have "selectedAccount a1 = []"
    by simp
  from Cons.IH [OF this rest] e r show ?case
    by (simp del: exec.simps)
qed

section \<open>The session invariant\<close>

text \<open>
  C1. The specification's invariant: at every observable point, a non-empty
  \<open>selectedAccount\<close> implies \<open>authenticated\<close>. \<open>insertCard\<close> and \<open>ejectCard\<close> clear the
  account whenever they reset the flag, but \<open>enterPin\<close> assigns the flag the gateway's
  answer and leaves the account as it is. After insertCard, enterPin("4321"),
  selectAccount("ACC-111") and enterPin("0000") on the objects of \<^verbatim>\<open>main\<close>, the session
  holds the card, is not authenticated and still has ACC-111 selected; getBalance then
  returns 100.
\<close>

theorem enterPin_wrong_pin_keeps_account:
  "session (snd (run [InsertCard, EnterPin ''4321'', SelectAccount ''ACC-111'',
                      EnterPin ''0000''] atm0)) = (''CARD-1234'', False, ''ACC-111'') \<and>
   fst (getBalance (snd (run [InsertCard, EnterPin ''4321'', SelectAccount ''ACC-111'',
                               EnterPin ''0000''] atm0))) = Inr 100"
proof -
  have "run [InsertCard, EnterPin ''4321'', SelectAccount ''ACC-111'', EnterPin ''0000''] atm0 =
    ([Inr VVoid, Inr (VBool True), Inr VVoid, Inr (VBool False)],
     mock_state 100 200 False ''ACC-111''
       [ReadCard, ValidatePin ''CARD-1234'' ''4321'', ValidatePin ''CARD-1234'' ''0000''])"
    by (simp add: step_insert step_pin step_select del: exec.simps)
  then show ?thesis
    by (simp add: session_def mock_state_def getBalance_def emit_def bank_getBalance_def)
qed

section \<open>Amounts that are not positive\<close>

text \<open>
  C2, as stated: deposit(-5) and withdraw(0) fail with InvalidAmount in every session
  state. On the freshly constructed controller, where no account is selected, both fail
  with NoAccountSelected: the account is checked before the amount.
\<close>

theorem invalid_amount_counterexample:
  "fst (deposit atm0 (- 5)) = Inl NoAccountSelected \<and>
   fst (deposit atm0 (- 5)) \<noteq> Inl InvalidAmount_deposit \<and>
   fst (withdraw atm0 0) = Inl NoAccountSelected \<and>
   fst (withdraw atm0 0) \<noteq> Inl InvalidAmount_withdraw"
  by (simp add: atm0_def atm_defs)

text \<open>
  C2, amended: in every state with an account selected, deposit(-5) and withdraw(0) fail
  with InvalidAmount and change nothing, whatever the card, the authentication flag, the
  gateway and the dispenser hold; in every state with no account selected, both fail
  with NoAccountSelected and change nothing.
\<close>

theorem invalid_amount_after_account_check:
  "(selectedAccount a \<noteq> [] \<longrightarrow>
      deposit a (- 5) = (Inl InvalidAmount_deposit, a) \<and>
      withdraw a 0 = (Inl InvalidAmount_withdraw, a)) \<and>
   (selectedAccount a = [] \<longrightarrow>
      deposit a (- 5) = (Inl NoAccountSelected, a) \<and>
      withdraw a 0 = (Inl NoAccountSelected, a))"
  by (simp add: deposit_def withdraw_def signed_cmp)

theorem invalid_amount_after_account_check_witness:
  "selectedAccount (mock_state 100 200 True ''ACC-111'' []) \<noteq> [] \<and>
   deposit (mock_state 100 200 True ''ACC-111'' []) (- 5) =
     (Inl InvalidAmount_deposit, mock_state 100 200 True ''ACC-111'' []) \<and>
   withdraw (mock_state 100 200 True ''ACC-111'' []) 0 =
     (Inl InvalidAmount_withdraw, mock_state 100 200 True ''ACC-111'' []) \<and>
   selectedAccount atm0 = [] \<and>
   deposit atm0 (- 5) = (Inl NoAccountSelected, atm0) \<and>
   withdraw atm0 0 = (Inl NoAccountSelected, atm0)"
proof -
  have 1: "selectedAccount (mock_state 100 200 True ''ACC-111'' []) \<noteq> []"
    by (simp add: mock_state_def)
  have 2: "selectedAccount atm0 = []"
    by (simp add: atm0_def ATMController_new_def)
  show ?thesis
    using invalid_amount_after_account_check [of "mock_state 100 200 True ''ACC-111'' []"]
      invalid_amount_after_account_check [of atm0] 1 2
    by simp
qed

section \<open>withdraw\<close>

text \<open>
  C3. The outcome of withdraw(amount), in the order of its checks: NoAccountSelected when
  no account is selected; otherwise InvalidAmount when amount <= 0; otherwise the
  gateway's balance of the selected account is read (an unknown account makes the read
  throw), and the call fails with InsufficientFunds exactly when amount > balance;
  otherwise with InsufficientCash exactly when the dispenser's hasCash(amount) is false;
  otherwise it returns normally. The branches give pairwise different results, so each
  error is returned in its branch and nowhere else.
\<close>

theorem withdraw_outcome:
  "fst (withdraw a amount) =
     (if selectedAccount a = [] then Inl NoAccountSelected
      else if amount \<le>s 0 then Inl InvalidAmount_withdraw
      else case balances (bank a) (selectedAccount a) of
             None \<Rightarrow> Inl out_of_range
           | Some bal \<Rightarrow>
               if bal <s amount then Inl InsufficientFunds
               else if \<not> hasCash (dispenser a) amount then Inl InsufficientCash
               else Inr ())"
  by (simp add: withdraw_def emit_def bank_getBalance_def hasCash_def dispenseCash_def
      Let_def signed_cmp split: option.split)

text \<open>
  C4. A withdraw that returns normally has called, in this order, the gateway's
  getBalance, the dispenser's hasCash, the gateway's debit and the dispenser's
  dispenseCash, and leaves the account debited and the stock reduced. Whatever the
  outcome, no method of the controller calls dispenseCash except withdraw, and withdraw
  calls it only directly after the debit of the same amount on the selected account.
\<close>

theorem debit_before_dispense:
  "(fst (withdraw a amount) = Inr () \<longrightarrow>
      calls (snd (withdraw a amount)) =
        calls a @ [BankGetBalance (selectedAccount a), HasCash amount,
                   Debit (selectedAccount a) amount, DispenseCash amount] \<and>
      bank (snd (withdraw a amount)) = debit (bank a) (selectedAccount a) amount \<and>
      dispenser (snd (withdraw a amount)) = snd (dispenseCash (dispenser a) amount)) \<and>
   (calls (snd (exec c a)) = calls a @ new \<and> DispenseCash x \<in> set new \<longrightarrow>
      c = Withdraw x \<and>
      new = [BankGetBalance (selectedAccount a), HasCash x,
             Debit (selectedAccount a) x, DispenseCash x])"
proof -
  have ok: "fst (withdraw a amount) = Inr () \<longrightarrow>
      calls (snd (withdraw a amount)) =
        calls a @ [BankGetBalance (selectedAccount a), HasCash amount,
                   Debit (selectedAccount a) amount, DispenseCash amount] \<and>
      bank (snd (withdraw a amount)) = debit (bank a) (selectedAccount a) amount \<and>
      dispenser (snd (withdraw a amount)) = snd (dispenseCash (dispenser a) amount)"
    by (auto simp: withdraw_def emit_def Let_def split: if_splits sum.splits prod.splits)
  have only: "calls (snd (exec c a)) = calls a @ new \<and> DispenseCash x \<in> set new \<longrightarrow>
      c = Withdraw x \<and>
      new = [BankGetBalance (selectedAccount a), HasCash x,
             Debit (selectedAccount a) x, DispenseCash x]"
    by (cases c) (auto simp: atm_defs Let_def split: if_splits sum.splits prod.splits)
  from ok only show ?thesis by blast
qed

theorem debit_before_dispense_witness:
  "fst (withdraw (mock_state 100 200 True ''ACC-111'' []) 70) = Inr () \<and>
   calls (snd (withdraw (mock_state 100 200 True ''ACC-111'' []) 70)) =
     [BankGetBalance ''ACC-111'', HasCash 70, Debit ''ACC-111'' 70, DispenseCash 70] \<and>
   balances (bank (snd (withdraw (mock_state 100 200 True ''ACC-111'' []) 70))) ''ACC-111''
     = Some 30 \<and>
   cashOnHand (dispenser (snd (withdraw (mock_state 100 200 True ''ACC-111'' []) 70))) = 130 \<and>
   calls (snd (exec (Withdraw 70) (mock_state 100 200 True ''ACC-111'' []))) =
     calls (mock_state 100 200 True ''ACC-111'' []) @
       [BankGetBalance ''ACC-111'', HasCash 70, Debit ''ACC-111'' 70, DispenseCash 70] \<and>
   DispenseCash 70 \<in>
     set [BankGetBalance ''ACC-111'', HasCash 70, Debit ''ACC-111'' 70, DispenseCash 70]"
proof -
  have h: "fst (withdraw (mock_state 100 200 True ''ACC-111'' []) 70) = Inr ()"
    by (simp add: withdraw_def emit_def mock_defs mock_state_def signed_cmp)
  have s: "selectedAccount (mock_state 100 200 True ''ACC-111'' []) = ''ACC-111''"
    "calls (mock_state 100 200 True ''ACC-111'' []) = []"
    "balances (bank (mock_state 100 200 True ''ACC-111'' [])) = [''ACC-111'' \<mapsto> 100]"
    "cashOnHand (dispenser (mock_state 100 200 True ''ACC-111'' [])) = 200"
    by (simp_all add: mock_state_def)
  have e: "calls (snd (exec (Withdraw 70) (mock_state 100 200 True ''ACC-111'' []))) =
      calls (mock_state 100 200 True ''ACC-111'' []) @
        [BankGetBalance ''ACC-111'', HasCash 70, Debit ''ACC-111'' 70, DispenseCash 70]"
    by (simp add: step_withdraw signed_cmp s del: exec.simps) (simp add: mock_state_def)
  from debit_before_dispense
    [where a = "mock_state 100 200 True ''ACC-111'' []" and amount = 70
       and c = "Withdraw 70" and x = 70
       and new = "[BankGetBalance ''ACC-111'', HasCash 70, Debit ''ACC-111'' 70,
                   DispenseCash 70]"] h e
  show ?thesis
    by (simp add: s debit_def subscript_def dispenseCash_def signed_cmp del: exec.simps)
qed

section \<open>enterPin\<close>

text \<open>
  C5. enterPin fails with NoCardInserted exactly when the controller holds no card
  number. When it holds one, enterPin returns the mock gateway's validatePin answer,
  stores it in \<open>authenticated\<close> and keeps the card number. After an enterPin that
  returned false, the card number is still held and the session is not authenticated,
  and an enterPin with the PIN registered for the card returns true and authenticates.
\<close>

theorem enterPin_result:
  "(fst (enterPin a pin) = Inl NoCardInserted \<longleftrightarrow> cardNumber a = []) \<and>
   (cardNumber a \<noteq> [] \<longrightarrow>
      fst (enterPin a pin) = Inr (validatePin (bank a) (cardNumber a) pin) \<and>
      authenticated (snd (enterPin a pin)) = validatePin (bank a) (cardNumber a) pin \<and>
      cardNumber (snd (enterPin a pin)) = cardNumber a) \<and>
   (cardNumber a \<noteq> [] \<and> fst (enterPin a wrong) = Inr False \<and>
    pins (bank a) (cardNumber a) = Some good \<longrightarrow>
      cardNumber (snd (enterPin a wrong)) = cardNumber a \<and>
      \<not> authenticated (snd (enterPin a wrong)) \<and>
      fst (enterPin (snd (enterPin a wrong)) good) = Inr True \<and>
      authenticated (snd (enterPin (snd (enterPin a wrong)) good)))"
  by (auto simp: enterPin_def emit_def validatePin_def Let_def split: option.splits)

theorem enterPin_result_witness:
  "fst (enterPin atm0 ''4321'') = Inl NoCardInserted \<and>
   cardNumber (mock_state 100 200 False [] [ReadCard]) \<noteq> [] \<and>
   pins (bank (mock_state 100 200 False [] [ReadCard])) ''CARD-1234'' = Some ''4321'' \<and>
   fst (enterPin (mock_state 100 200 False [] [ReadCard]) ''0000'') = Inr False \<and>
   cardNumber (snd (enterPin (mock_state 100 200 False [] [ReadCard]) ''0000''))
     = ''CARD-1234'' \<and>
   \<not> authenticated (snd (enterPin (mock_state 100 200 False [] [ReadCard]) ''0000'')) \<and>
   fst (enterPin (snd (enterPin (mock_state 100 200 False [] [ReadCard]) ''0000'')) ''4321'')
     = Inr True \<and>
   authenticated
     (snd (enterPin (snd (enterPin (mock_state 100 200 False [] [ReadCard]) ''0000''))
        ''4321''))"
proof -
  have c: "cardNumber atm0 = []"
    by (simp add: atm0_def ATMController_new_def)
  have s: "cardNumber (mock_state 100 200 False [] [ReadCard]) = ''CARD-1234''"
    "pins (bank (mock_state 100 200 False [] [ReadCard])) ''CARD-1234'' = Some ''4321''"
    by (simp_all add: mock_state_def)
  have w: "fst (enterPin (mock_state 100 200 False [] [ReadCard]) ''0000'') = Inr False"
    by (simp add: enterPin_def emit_def validatePin_def mock_state_def)
  from enterPin_result [of atm0 "''4321''"] c
  have 1: "fst (enterPin atm0 ''4321'') = Inl NoCardInserted"
    by simp
  from enterPin_result [of "mock_state 100 200 False [] [ReadCard]" "''0000''" "''0000''" "''4321''"]
    s w
  show ?thesis
    using 1 by simp
qed

section \<open>ejectCard\<close>

text \<open>
  C6. In every state ejectCard returns normally and leaves the card number empty, the
  session unauthenticated and no account selected. A second ejectCard also returns
  normally and leaves the session as the first one left it.
\<close>

theorem ejectCard_idempotent:
  "fst (ejectCard a) = Inr () \<and>
   session (snd (ejectCard a)) = ([], False, []) \<and>
   fst (ejectCard (snd (ejectCard a))) = Inr () \<and>
   session (snd (ejectCard (snd (ejectCard a)))) = session (snd (ejectCard a))"
  by (simp add: ejectCard_def session_def emit_def Let_def)

section \<open>The scenario of main\<close>

text \<open>
  C7. On the objects \<^verbatim>\<open>main\<close> constructs (card CARD-1234 with PIN 4321, account ACC-111
  with balance 100, a stock of 200): insertCard; enterPin("0000") returns false;
  enterPin("4321") returns true; selectAccount("ACC-111"); getBalance returns 100;
  deposit(50); getBalance returns 150; withdraw(70) returns normally; getBalance returns
  80; withdraw(200) fails with InsufficientFunds.
\<close>

theorem main_scenario:
  "fst (run [InsertCard, EnterPin ''0000'', EnterPin ''4321'', SelectAccount ''ACC-111'',
             GetBalance, Deposit 50, GetBalance, Withdraw 70, GetBalance, Withdraw 200]
          atm0) =
     [Inr VVoid, Inr (VBool False), Inr (VBool True), Inr VVoid,
      Inr (VInt 100), Inr VVoid, Inr (VInt 150), Inr VVoid, Inr (VInt 80),
      Inl InsufficientFunds]"
  by (simp add: step_insert step_pin step_select step_balance step_deposit step_withdraw
      step_withdraw_funds signed_cmp del: exec.simps)

section \<open>The session after a failed call\<close>

text \<open>
  C8. Whenever a method of the controller throws, the session (card number,
  authentication flag, selected account) is what it was before the call. When enterPin
  returns false, the card number and the selected account are what they were and the
  flag is false.
\<close>

theorem error_keeps_session:
  "(fst (exec c a) = Inl e \<longrightarrow> session (snd (exec c a)) = session a) \<and>
   (fst (exec (EnterPin pin) a) = Inr (VBool False) \<longrightarrow>
      session (snd (exec (EnterPin pin) a)) = (cardNumber a, False, selectedAccount a))"
  by (cases c)
     (auto simp: atm_defs bank_getBalance_def dispenseCash_def Let_def
           split: if_splits option.splits sum.splits prod.splits)

theorem error_keeps_session_witness:
  "fst (exec (SelectAccount ''ACC-111'') (mock_state 100 200 False [] [ReadCard]))
     = Inl NotAuthenticated \<and>
   session (snd (exec (SelectAccount ''ACC-111'') (mock_state 100 200 False [] [ReadCard])))
     = (''CARD-1234'', False, []) \<and>
   fst (exec (EnterPin ''0000'') (mock_state 100 200 False [] [ReadCard]))
     = Inr (VBool False) \<and>
   session (snd (exec (EnterPin ''0000'') (mock_state 100 200 False [] [ReadCard])))
     = (''CARD-1234'', False, [])"
proof -
  have s: "session (mock_state 100 200 False [] [ReadCard]) = (''CARD-1234'', False, [])"
    "cardNumber (mock_state 100 200 False [] [ReadCard]) = ''CARD-1234''"
    "selectedAccount (mock_state 100 200 False [] [ReadCard]) = []"
    by (simp_all add: session_def mock_state_def)
  have 1: "fst (exec (SelectAccount ''ACC-111'') (mock_state 100 200 False [] [ReadCard]))
     = Inl NotAuthenticated"
    by (simp add: step_select_unauthenticated del: exec.simps)
  have 2: "fst (exec (EnterPin ''0000'') (mock_state 100 200 False [] [ReadCard]))
     = Inr (VBool False)"
    by (simp add: step_pin del: exec.simps)
  from error_keeps_session [of "SelectAccount ''ACC-111''"
      "mock_state 100 200 False [] [ReadCard]" NotAuthenticated "''0000''"] 1 2
  show ?thesis
    by (simp add: s del: exec.simps)
qed

section \<open>Selecting the empty string\<close>

text \<open>
  C9. In an authenticated session selectAccount("") returns normally and leaves the
  selected account empty, as the constructor, insertCard and ejectCard leave it. After
  any further calls none of which selects an account (a selectAccount with a non-empty
  identifier that returns normally), getBalance, deposit and withdraw fail with
  NoAccountSelected, whatever the amount.
\<close>

theorem empty_account_is_no_account:
  assumes "authenticated a"
    and "list_all (\<lambda>(c, r). \<not> selects c r)
           (zip cs (fst (run cs (snd (selectAccount a [])))))"
  shows "fst (selectAccount a []) = Inr () \<and>
         selectedAccount (snd (selectAccount a [])) = [] \<and>
         fst (getBalance (snd (run cs (snd (selectAccount a []))))) = Inl NoAccountSelected \<and>
         fst (deposit (snd (run cs (snd (selectAccount a [])))) x) = Inl NoAccountSelected \<and>
         fst (withdraw (snd (run cs (snd (selectAccount a [])))) y) = Inl NoAccountSelected"
proof -
  from assms(1) have sel: "fst (selectAccount a []) = Inr ()"
    and none: "selectedAccount (snd (selectAccount a [])) = []"
    by (simp_all add: selectAccount_def)
  from run_keeps_no_account [OF none assms(2)]
  have "selectedAccount (snd (run cs (snd (selectAccount a [])))) = []" .
  then have "fst (getBalance (snd (run cs (snd (selectAccount a []))))) = Inl NoAccountSelected"
    and "fst (deposit (snd (run cs (snd (selectAccount a [])))) x) = Inl NoAccountSelected"
    and "fst (withdraw (snd (run cs (snd (selectAccount a [])))) y) = Inl NoAccountSelected"
    by (simp_all add: getBalance_def deposit_def withdraw_def)
  with sel none show ?thesis
    by simp
qed

theorem empty_account_is_no_account_witness:
  "authenticated (mock_state 100 200 True ''ACC-111'' []) \<and>
   fst (run [GetBalance, EnterPin ''0000'', SelectAccount ''ACC-111'']
          (snd (selectAccount (mock_state 100 200 True ''ACC-111'' []) []))) =
     [Inl NoAccountSelected, Inr (VBool False), Inl NotAuthenticated] \<and>
   fst (selectAccount (mock_state 100 200 True ''ACC-111'' []) []) = Inr () \<and>
   fst (getBalance
         (snd (run [GetBalance, EnterPin ''0000'', SelectAccount ''ACC-111'']
                 (snd (selectAccount (mock_state 100 200 True ''ACC-111'' []) [])))))
     = Inl NoAccountSelected \<and>
   fst (deposit
         (snd (run [GetBalance, EnterPin ''0000'', SelectAccount ''ACC-111'']
                 (snd (selectAccount (mock_state 100 200 True ''ACC-111'' []) [])))) 50)
     = Inl NoAccountSelected \<and>
   fst (withdraw
         (snd (run [GetBalance, EnterPin ''0000'', SelectAccount ''ACC-111'']
                 (snd (selectAccount (mock_state 100 200 True ''ACC-111'' []) [])))) 70)
     = Inl NoAccountSelected"
proof -
  have au: "authenticated (mock_state 100 200 True ''ACC-111'' [])"
    by (simp add: mock_state_def)
  have sel: "snd (selectAccount (mock_state 100 200 True ''ACC-111'' []) []) =
      mock_state 100 200 True [] []"
    by (simp add: selectAccount_def mock_state_def)
  have bal: "exec GetBalance (mock_state 100 200 True [] []) =
      (Inl NoAccountSelected, mock_state 100 200 True [] [])"
    by (simp add: atm_defs mock_state_def)
  have rs: "fst (run [GetBalance, EnterPin ''0000'', SelectAccount ''ACC-111'']
          (snd (selectAccount (mock_state 100 200 True ''ACC-111'' []) []))) =
     [Inl NoAccountSelected, Inr (VBool False), Inl NotAuthenticated]"
    by (simp add: sel bal step_pin step_select_unauthenticated del: exec.simps)
  have quiet: "list_all (\<lambda>(c, r). \<not> selects c r)
      (zip [GetBalance, EnterPin ''0000'', SelectAccount ''ACC-111'']
        (fst (run [GetBalance, EnterPin ''0000'', SelectAccount ''ACC-111'']
          (snd (selectAccount (mock_state 100 200 True ''ACC-111'' []) [])))))"
    by (simp only: rs) simp
  from empty_account_is_no_account [OF au quiet, of 50 70] au rs
  show ?thesis
    by simp
qed

section \<open>An account the mock gateway does not know\<close>

text \<open>
  C10. When the selected account has no entry in the mock gateway's balances, getBalance
  throws the \<open>out_of_range\<close> of the gateway's lookup, a withdraw of a positive amount
  throws it too and leaves the gateway and the dispenser as they were, and a deposit of a
  positive amount returns normally and gives the account an entry whose balance is the
  amount deposited.
\<close>

theorem unknown_account:
  assumes "selectedAccount a \<noteq> []"
    and "balances (bank a) (selectedAccount a) = None"
    and "0 <s amount"
  shows "fst (getBalance a) = Inl out_of_range \<and>
         bank (snd (getBalance a)) = bank a \<and>
         fst (withdraw a amount) = Inl out_of_range \<and>
         bank (snd (withdraw a amount)) = bank a \<and>
         dispenser (snd (withdraw a amount)) = dispenser a \<and>
         fst (deposit a amount) = Inr () \<and>
         balances (bank (snd (deposit a amount))) =
           (balances (bank a))(selectedAccount a \<mapsto> amount)"
  using assms
  by (simp add: getBalance_def withdraw_def deposit_def emit_def bank_getBalance_def
      credit_def subscript_def Let_def signed_cmp)

theorem unknown_account_witness:
  "selectedAccount (mock_state 100 200 True ''ACC-999'' []) \<noteq> [] \<and>
   balances (bank (mock_state 100 200 True ''ACC-999'' [])) ''ACC-999'' = None \<and>
   (0 :: int32) <s 50 \<and>
   fst (getBalance (mock_state 100 200 True ''ACC-999'' [])) = Inl out_of_range \<and>
   fst (withdraw (mock_state 100 200 True ''ACC-999'' []) 50) = Inl out_of_range \<and>
   fst (deposit (mock_state 100 200 True ''ACC-999'' []) 50) = Inr () \<and>
   balances (bank (snd (deposit (mock_state 100 200 True ''ACC-999'' []) 50))) ''ACC-999''
     = Some 50 \<and>
   balances (bank (snd (deposit (mock_state 100 200 True ''ACC-999'' []) 50))) ''ACC-111''
     = Some 100"
proof -
  have s: "selectedAccount (mock_state 100 200 True ''ACC-999'' []) = ''ACC-999''"
    "balances (bank (mock_state 100 200 True ''ACC-999'' [])) = [''ACC-111'' \<mapsto> 100]"
    by (simp_all add: mock_state_def)
  have 1: "selectedAccount (mock_state 100 200 True ''ACC-999'' []) \<noteq> []"
    and 2: "balances (bank (mock_state 100 200 True ''ACC-999'' []))
              (selectedAccount (mock_state 100 200 True ''ACC-999'' [])) = None"
    by (simp_all add: s)
  have 3: "(0 :: int32) <s 50"
    by (simp add: signed_cmp)
  from unknown_account [OF 1 2 3] 3
  show ?thesis
    by (simp add: s)
qed

end
